theory Spec2Isabelle
  imports Complex_Main
begin

text \<open>
  A model of \<open>src/index.ts\<close>, the listener of a slash command that fetches weather-radar
  images of a Japanese prefecture and posts them to the channel: one still image in mode
  \<open>now\<close>, an animated GIF of 25 hourly frames in mode \<open>today\<close>, and an animated GIF of
  7 frames at steps of 10 minutes otherwise.

  The listener is modelled as a function from the configuration, the outside world and the
  command to the trace of the calls it makes and the final state of its canvas and encoder.
  Promises are modelled by their outcome: a rejection that reaches a \<open>catch\<close> becomes the
  events of that handler, a rejection that reaches none becomes \<open>UnhandledRejection\<close>.
  \<open>printCompleteJSON\<close> and \<open>console.log\<close> are taken to return.
\<close>

section \<open>Strings and numbers of the program\<close>

text \<open>
  JavaScript strings are modelled as \<open>string\<close>; the Japanese literals of the source are
  written as the bytes of their UTF-8 encoding. A value that may be \<open>undefined\<close> at run
  time is an \<open>option\<close> (\<open>None\<close> is \<open>undefined\<close>). Numbers are \<open>real\<close>.
\<close>

text \<open>A template literal renders \<open>undefined\<close> as the nine letters of that word.\<close>

definition tmpl_str :: "string option \<Rightarrow> string" where
  "tmpl_str v = (case v of None \<Rightarrow> ''undefined'' | Some s \<Rightarrow> s)"

text \<open>
  The conversion of a number to its decimal text is the language's own; it is a parameter
  \<open>show\<close> of the definitions that interpolate a number into a template literal.
\<close>

definition tmpl_num :: "(real \<Rightarrow> string) \<Rightarrow> real option \<Rightarrow> string" where
  "tmpl_num show v = (case v of None \<Rightarrow> ''undefined'' | Some x \<Rightarrow> show x)"

section \<open>Time stamps\<close>

text \<open>
  A moment of the date library is an instant (milliseconds since the epoch) together with the
  offset from UTC, in minutes, in which it is displayed. \<open>moment()\<close> yields the current
  instant displayed in the local zone of the process; \<open>.tz('Asia/Tokyo')\<close> keeps the instant
  and switches the display to Japan Standard Time, which is UTC+09:00 with no daylight saving
  time for every instant since September 1951.
\<close>

record Moment =
  ms :: int
  utcOffset :: int

definition moment_now :: "int \<Rightarrow> int \<Rightarrow> Moment" where
  "moment_now now_ms local_offset = \<lparr>ms = now_ms, utcOffset = local_offset\<rparr>"

definition tz_Asia_Tokyo :: "Moment \<Rightarrow> Moment" where
  "tz_Asia_Tokyo m = m\<lparr>utcOffset := 540\<rparr>"

text \<open>
  Adding and subtracting hours and minutes moves the instant. Subtracting a day moves the
  wall-clock date back by one day; at a constant offset that is 24 hours.
\<close>

definition subtract_days :: "int \<Rightarrow> Moment \<Rightarrow> Moment" where
  "subtract_days n m = m\<lparr>ms := ms m - n * 86400000\<rparr>"

definition subtract_minutes :: "int \<Rightarrow> Moment \<Rightarrow> Moment" where
  "subtract_minutes n m = m\<lparr>ms := ms m - n * 60000\<rparr>"

definition add_hours :: "int \<Rightarrow> Moment \<Rightarrow> Moment" where
  "add_hours n m = m\<lparr>ms := ms m + n * 3600000\<rparr>"

definition add_minutes :: "int \<Rightarrow> Moment \<Rightarrow> Moment" where
  "add_minutes n m = m\<lparr>ms := ms m + n * 60000\<rparr>"

text \<open>
  Formatting with the pattern \<open>YYYYMMDDHHmm\<close>: the wall-clock fields of the instant shifted by
  the offset, in the proleptic Gregorian calendar, each zero-padded (years 0000 to 9999).
\<close>

definition digit :: "int \<Rightarrow> char" where
  "digit d = ''0123456789'' ! nat (d mod 10)"

definition pad2 :: "int \<Rightarrow> string" where
  "pad2 n = [digit (n div 10), digit n]"

definition pad4 :: "int \<Rightarrow> string" where
  "pad4 n = pad2 (n div 100) @ pad2 n"

text \<open>The civil date (year, month, day) of a number of days since 1970-01-01.\<close>

definition civil_from_days :: "int \<Rightarrow> int \<times> int \<times> int" where
  "civil_from_days days =
     (let z = days + 719468;
          era = z div 146097;
          doe = z mod 146097;
          yoe = (doe - doe div 1460 + doe div 36524 - doe div 146096) div 365;
          y = yoe + era * 400;
          doy = doe - (365 * yoe + yoe div 4 - yoe div 100);
          mp = (5 * doy + 2) div 153;
          d = doy - (153 * mp + 2) div 5 + 1;
          mo = (if mp < 10 then mp + 3 else mp - 9)
      in (if mo \<le> 2 then y + 1 else y, mo, d))"

definition format_wall :: "int \<Rightarrow> string" where
  "format_wall wall_ms =
     (let (y, mo, d) = civil_from_days (wall_ms div 86400000);
          r = wall_ms mod 86400000
      in pad4 y @ pad2 mo @ pad2 d @ pad2 (r div 3600000) @ pad2 (r mod 3600000 div 60000))"

definition format_YYYYMMDDHHmm :: "Moment \<Rightarrow> string" where
  "format_YYYYMMDDHHmm m = format_wall (ms m + utcOffset m * 60000)"

text \<open>The same instant written as \<open>YYYYMMDDHHmm\<close> in Asia/Tokyo (UTC+09:00).\<close>

definition tokyo_stamp :: "int \<Rightarrow> string" where
  "tokyo_stamp t = format_wall (t + 9 * 3600000)"

section \<open>Configuration read at start-up\<close>

text \<open>
  \<open>YAHOO_JAPAN_API_CLIENT_ID\<close> and \<open>YAHOO_JAPAN_API_MAP_MODE\<close> are environment variables;
  an unset variable is \<open>undefined\<close>, and \<open>||\<close> replaces an unset or empty map mode by
  \<open>'map'\<close>.
\<close>

record Config =
  env_YAHOO_JAPAN_API_CLIENT_ID :: "string option"
  env_YAHOO_JAPAN_API_MAP_MODE :: "string option"
  numToString :: "real \<Rightarrow> string"

definition yahooAppId :: "Config \<Rightarrow> string option" where
  "yahooAppId cfg = env_YAHOO_JAPAN_API_CLIENT_ID cfg"

definition yahooMapMode :: "Config \<Rightarrow> string" where
  "yahooMapMode cfg =
     (case env_YAHOO_JAPAN_API_MAP_MODE cfg of
        None \<Rightarrow> ''map''
      | Some s \<Rightarrow> (if s = [] then ''map'' else s))"

section \<open>The URL builder\<close>

record ImageUrlArgs =
  arg_lat :: "real option"
  arg_lon :: "real option"
  arg_width :: real
  arg_height :: real
  arg_m :: Moment

definition buildImageUrl :: "Config \<Rightarrow> ImageUrlArgs \<Rightarrow> string" where
  "buildImageUrl cfg args =
     ''https://map.yahooapis.jp/map/V1/static?appid='' @ tmpl_str (yahooAppId cfg)
     @ ''&z=10&lat='' @ tmpl_num (numToString cfg) (arg_lat args)
     @ ''&lon='' @ tmpl_num (numToString cfg) (arg_lon args)
     @ ''&width='' @ numToString cfg (arg_width args)
     @ ''&height='' @ numToString cfg (arg_height args)
     @ ''&mode='' @ yahooMapMode cfg
     @ ''&overlay=type:rainfall|datelabel:on|date:'' @ format_YYYYMMDDHHmm (arg_m args)"


section \<open>The prefecture table\<close>

record Prefecture =
  kanjiName :: string
  lat :: real
  lon :: real

text \<open>The object literal, in source order.\<close>

definition prefectures_literal :: "(string \<times> Prefecture) list" where
  "prefectures_literal = [
   (''hokkaido'', \<lparr>kanjiName =
      [CHR 0xE5, CHR 0x8C, CHR 0x97, CHR 0xE6, CHR 0xB5, CHR 0xB7, CHR 0xE9, CHR 0x81, CHR 0x93],
      lat = 43.06417, lon = 141.34694\<rparr>),
   (''aomori'', \<lparr>kanjiName =
      [CHR 0xE9, CHR 0x9D, CHR 0x92, CHR 0xE6, CHR 0xA3, CHR 0xAE, CHR 0xE7, CHR 0x9C, CHR 0x8C],
      lat = 40.82444, lon = 140.74\<rparr>),
   (''iwate'', \<lparr>kanjiName =
      [CHR 0xE5, CHR 0xB2, CHR 0xA9, CHR 0xE6, CHR 0x89, CHR 0x8B, CHR 0xE7, CHR 0x9C, CHR 0x8C],
      lat = 39.70361, lon = 141.1525\<rparr>),
   (''miyagi'', \<lparr>kanjiName =
      [CHR 0xE5, CHR 0xAE, CHR 0xAE, CHR 0xE5, CHR 0x9F, CHR 0x8E, CHR 0xE7, CHR 0x9C, CHR 0x8C],
      lat = 38.26889, lon = 140.87194\<rparr>),
   (''akita'', \<lparr>kanjiName =
      [CHR 0xE7, CHR 0xA7, CHR 0x8B, CHR 0xE7, CHR 0x94, CHR 0xB0, CHR 0xE7, CHR 0x9C, CHR 0x8C],
      lat = 39.71861, lon = 140.1025\<rparr>),
   (''yamagata'', \<lparr>kanjiName =
      [CHR 0xE5, CHR 0xB1, CHR 0xB1, CHR 0xE5, CHR 0xBD, CHR 0xA2, CHR 0xE7, CHR 0x9C, CHR 0x8C],
      lat = 38.24056, lon = 140.36333\<rparr>),
   (''fukushima'', \<lparr>kanjiName =
      [CHR 0xE7, CHR 0xA6, CHR 0x8F, CHR 0xE5, CHR 0xB3, CHR 0xB6, CHR 0xE7, CHR 0x9C, CHR 0x8C],
      lat = 37.75, lon = 140.46778\<rparr>),
   (''ibaraki'', \<lparr>kanjiName =
      [CHR 0xE8, CHR 0x8C, CHR 0xA8, CHR 0xE5, CHR 0x9F, CHR 0x8E, CHR 0xE7, CHR 0x9C, CHR 0x8C],
      lat = 36.34139, lon = 140.44667\<rparr>),
   (''tochigi'', \<lparr>kanjiName =
      [CHR 0xE6, CHR 0xA0, CHR 0x83, CHR 0xE6, CHR 0x9C, CHR 0xA8, CHR 0xE7, CHR 0x9C, CHR 0x8C],
      lat = 36.56583, lon = 139.88361\<rparr>),
   (''gunma'', \<lparr>kanjiName =
      [CHR 0xE7, CHR 0xBE, CHR 0xA4, CHR 0xE9, CHR 0xA6, CHR 0xAC, CHR 0xE7, CHR 0x9C, CHR 0x8C],
      lat = 36.39111, lon = 139.06083\<rparr>),
   (''saitama'', \<lparr>kanjiName =
      [CHR 0xE5, CHR 0x9F, CHR 0xBC, CHR 0xE7, CHR 0x8E, CHR 0x89, CHR 0xE7, CHR 0x9C, CHR 0x8C],
      lat = 35.85694, lon = 139.64889\<rparr>),
   (''chiba'', \<lparr>kanjiName =
      [CHR 0xE5, CHR 0x8D, CHR 0x83, CHR 0xE8, CHR 0x91, CHR 0x89, CHR 0xE7, CHR 0x9C, CHR 0x8C],
      lat = 35.60472, lon = 140.12333\<rparr>),
   (''tokyo'', \<lparr>kanjiName =
      [CHR 0xE6, CHR 0x9D, CHR 0xB1, CHR 0xE4, CHR 0xBA, CHR 0xAC, CHR 0xE9, CHR 0x83, CHR 0xBD],
      lat = 35.68944, lon = 139.69167\<rparr>),
   (''kanagawa'', \<lparr>kanjiName =
      [CHR 0xE7, CHR 0xA5, CHR 0x9E, CHR 0xE5, CHR 0xA5, CHR 0x88, CHR 0xE5, CHR 0xB7,
       CHR 0x9D, CHR 0xE7, CHR 0x9C, CHR 0x8C],
      lat = 35.44778, lon = 139.6425\<rparr>),
   (''niigata'', \<lparr>kanjiName =
      [CHR 0xE6, CHR 0x96, CHR 0xB0, CHR 0xE6, CHR 0xBD, CHR 0x9F, CHR 0xE7, CHR 0x9C, CHR 0x8C],
      lat = 37.90222, lon = 139.02361\<rparr>),
   (''toyama'', \<lparr>kanjiName =
      [CHR 0xE5, CHR 0xAF, CHR 0x8C, CHR 0xE5, CHR 0xB1, CHR 0xB1, CHR 0xE7, CHR 0x9C, CHR 0x8C],
      lat = 36.69528, lon = 137.21139\<rparr>),
   (''ishikawa'', \<lparr>kanjiName =
      [CHR 0xE7, CHR 0x9F, CHR 0xB3, CHR 0xE5, CHR 0xB7, CHR 0x9D, CHR 0xE7, CHR 0x9C, CHR 0x8C],
      lat = 36.59444, lon = 136.62556\<rparr>),
   (''fukui'', \<lparr>kanjiName =
      [CHR 0xE7, CHR 0xA6, CHR 0x8F, CHR 0xE4, CHR 0xBA, CHR 0x95, CHR 0xE7, CHR 0x9C, CHR 0x8C],
      lat = 36.06528, lon = 136.22194\<rparr>),
   (''yamanashi'', \<lparr>kanjiName =
      [CHR 0xE5, CHR 0xB1, CHR 0xB1, CHR 0xE6, CHR 0xA2, CHR 0xA8, CHR 0xE7, CHR 0x9C, CHR 0x8C],
      lat = 35.66389, lon = 138.56833\<rparr>),
   (''nagano'', \<lparr>kanjiName =
      [CHR 0xE9, CHR 0x95, CHR 0xB7, CHR 0xE9, CHR 0x87, CHR 0x8E, CHR 0xE7, CHR 0x9C, CHR 0x8C],
      lat = 36.65139, lon = 138.18111\<rparr>),
   (''gifu'', \<lparr>kanjiName =
      [CHR 0xE5, CHR 0xB2, CHR 0x90, CHR 0xE9, CHR 0x98, CHR 0x9C, CHR 0xE7, CHR 0x9C, CHR 0x8C],
      lat = 35.39111, lon = 136.72222\<rparr>),
   (''shizuoka'', \<lparr>kanjiName =
      [CHR 0xE9, CHR 0x9D, CHR 0x99, CHR 0xE5, CHR 0xB2, CHR 0xA1, CHR 0xE7, CHR 0x9C, CHR 0x8C],
      lat = 34.97694, lon = 138.38306\<rparr>),
   (''aichi'', \<lparr>kanjiName =
      [CHR 0xE6, CHR 0x84, CHR 0x9B, CHR 0xE7, CHR 0x9F, CHR 0xA5, CHR 0xE7, CHR 0x9C, CHR 0x8C],
      lat = 35.18028, lon = 136.90667\<rparr>),
   (''mie'', \<lparr>kanjiName =
      [CHR 0xE4, CHR 0xB8, CHR 0x89, CHR 0xE9, CHR 0x87, CHR 0x8D, CHR 0xE7, CHR 0x9C, CHR 0x8C],
      lat = 34.73028, lon = 136.50861\<rparr>),
   (''shiga'', \<lparr>kanjiName =
      [CHR 0xE6, CHR 0xBB, CHR 0x8B, CHR 0xE8, CHR 0xB3, CHR 0x80, CHR 0xE7, CHR 0x9C, CHR 0x8C],
      lat = 35.00444, lon = 135.86833\<rparr>),
   (''kyoto'', \<lparr>kanjiName =
      [CHR 0xE4, CHR 0xBA, CHR 0xAC, CHR 0xE9, CHR 0x83, CHR 0xBD, CHR 0xE5, CHR 0xBA, CHR 0x9C],
      lat = 35.02139, lon = 135.75556\<rparr>),
   (''osaka'', \<lparr>kanjiName =
      [CHR 0xE5, CHR 0xA4, CHR 0xA7, CHR 0xE9, CHR 0x98, CHR 0xAA, CHR 0xE5, CHR 0xBA, CHR 0x9C],
      lat = 34.68639, lon = 135.52\<rparr>),
   (''hyogo'', \<lparr>kanjiName =
      [CHR 0xE5, CHR 0x85, CHR 0xB5, CHR 0xE5, CHR 0xBA, CHR 0xAB, CHR 0xE7, CHR 0x9C, CHR 0x8C],
      lat = 34.93228, lon = 134.89879114\<rparr>),
   (''nara'', \<lparr>kanjiName =
      [CHR 0xE5, CHR 0xA5, CHR 0x88, CHR 0xE8, CHR 0x89, CHR 0xAF, CHR 0xE7, CHR 0x9C, CHR 0x8C],
      lat = 34.68528, lon = 135.83278\<rparr>),
   (''wakayama'', \<lparr>kanjiName =
      [CHR 0xE5, CHR 0x92, CHR 0x8C, CHR 0xE6, CHR 0xAD, CHR 0x8C, CHR 0xE5, CHR 0xB1,
       CHR 0xB1, CHR 0xE7, CHR 0x9C, CHR 0x8C],
      lat = 34.22611, lon = 135.1675\<rparr>),
   (''tottori'', \<lparr>kanjiName =
      [CHR 0xE9, CHR 0xB3, CHR 0xA5, CHR 0xE5, CHR 0x8F, CHR 0x96, CHR 0xE7, CHR 0x9C, CHR 0x8C],
      lat = 35.50361, lon = 134.23833\<rparr>),
   (''shimane'', \<lparr>kanjiName =
      [CHR 0xE5, CHR 0xB3, CHR 0xB6, CHR 0xE6, CHR 0xA0, CHR 0xB9, CHR 0xE7, CHR 0x9C, CHR 0x8C],
      lat = 35.47222, lon = 133.05056\<rparr>),
   (''okayama'', \<lparr>kanjiName =
      [CHR 0xE5, CHR 0xB2, CHR 0xA1, CHR 0xE5, CHR 0xB1, CHR 0xB1, CHR 0xE7, CHR 0x9C, CHR 0x8C],
      lat = 34.66167, lon = 133.935\<rparr>),
   (''hiroshima'', \<lparr>kanjiName =
      [CHR 0xE5, CHR 0xBA, CHR 0x83, CHR 0xE5, CHR 0xB3, CHR 0xB6, CHR 0xE7, CHR 0x9C, CHR 0x8C],
      lat = 34.39639, lon = 132.45944\<rparr>),
   (''yamaguchi'', \<lparr>kanjiName =
      [CHR 0xE5, CHR 0xB1, CHR 0xB1, CHR 0xE5, CHR 0x8F, CHR 0xA3, CHR 0xE7, CHR 0x9C, CHR 0x8C],
      lat = 34.18583, lon = 131.47139\<rparr>),
   (''tokushima'', \<lparr>kanjiName =
      [CHR 0xE5, CHR 0xBE, CHR 0xB3, CHR 0xE5, CHR 0xB3, CHR 0xB6, CHR 0xE7, CHR 0x9C, CHR 0x8C],
      lat = 34.06583, lon = 134.55944\<rparr>),
   (''kagawa'', \<lparr>kanjiName =
      [CHR 0xE9, CHR 0xA6, CHR 0x99, CHR 0xE5, CHR 0xB7, CHR 0x9D, CHR 0xE7, CHR 0x9C, CHR 0x8C],
      lat = 34.34028, lon = 134.04333\<rparr>),
   (''ehime'', \<lparr>kanjiName =
      [CHR 0xE6, CHR 0x84, CHR 0x9B, CHR 0xE5, CHR 0xAA, CHR 0x9B, CHR 0xE7, CHR 0x9C, CHR 0x8C],
      lat = 33.84167, lon = 132.76611\<rparr>),
   (''kochi'', \<lparr>kanjiName =
      [CHR 0xE9, CHR 0xAB, CHR 0x98, CHR 0xE7, CHR 0x9F, CHR 0xA5, CHR 0xE7, CHR 0x9C, CHR 0x8C],
      lat = 33.55972, lon = 133.53111\<rparr>),
   (''fukuoka'', \<lparr>kanjiName =
      [CHR 0xE7, CHR 0xA6, CHR 0x8F, CHR 0xE5, CHR 0xB2, CHR 0xA1, CHR 0xE7, CHR 0x9C, CHR 0x8C],
      lat = 33.60639, lon = 130.41806\<rparr>),
   (''saga'', \<lparr>kanjiName =
      [CHR 0xE4, CHR 0xBD, CHR 0x90, CHR 0xE8, CHR 0xB3, CHR 0x80, CHR 0xE7, CHR 0x9C, CHR 0x8C],
      lat = 33.24944, lon = 130.29889\<rparr>),
   (''nagasaki'', \<lparr>kanjiName =
      [CHR 0xE9, CHR 0x95, CHR 0xB7, CHR 0xE5, CHR 0xB4, CHR 0x8E, CHR 0xE7, CHR 0x9C, CHR 0x8C],
      lat = 32.74472, lon = 129.87361\<rparr>),
   (''kumamoto'', \<lparr>kanjiName =
      [CHR 0xE7, CHR 0x86, CHR 0x8A, CHR 0xE6, CHR 0x9C, CHR 0xAC, CHR 0xE7, CHR 0x9C, CHR 0x8C],
      lat = 32.78972, lon = 130.74167\<rparr>),
   (''oita'', \<lparr>kanjiName =
      [CHR 0xE5, CHR 0xA4, CHR 0xA7, CHR 0xE5, CHR 0x88, CHR 0x86, CHR 0xE7, CHR 0x9C, CHR 0x8C],
      lat = 33.23806, lon = 131.6125\<rparr>),
   (''miyazaki'', \<lparr>kanjiName =
      [CHR 0xE5, CHR 0xAE, CHR 0xAE, CHR 0xE5, CHR 0xB4, CHR 0x8E, CHR 0xE7, CHR 0x9C, CHR 0x8C],
      lat = 31.91111, lon = 131.42389\<rparr>),
   (''kagoshima'', \<lparr>kanjiName =
      [CHR 0xE9, CHR 0xB9, CHR 0xBF, CHR 0xE5, CHR 0x85, CHR 0x90, CHR 0xE5, CHR 0xB3,
       CHR 0xB6, CHR 0xE7, CHR 0x9C, CHR 0x8C],
      lat = 31.56028, lon = 130.55806\<rparr>),
   (''okinawa'', \<lparr>kanjiName =
      [CHR 0xE6, CHR 0xB2, CHR 0x96, CHR 0xE7, CHR 0xB8, CHR 0x84, CHR 0xE7, CHR 0x9C, CHR 0x8C],
      lat = 26.2125, lon = 127.68111\<rparr>)]"

text \<open>
  The seven assignments after the literal: each reads an own property of the table and stores
  it under a further key.
\<close>

definition assign_alias :: "string \<Rightarrow> string \<Rightarrow> (string \<rightharpoonup> Prefecture) \<Rightarrow> (string \<rightharpoonup> Prefecture)" where
  "assign_alias new_key old_key tbl = tbl(new_key := tbl old_key)"

definition prefectures :: "string \<rightharpoonup> Prefecture" where
  "prefectures =
     (assign_alias ''ohita'' ''oita''
     (assign_alias ''ooita'' ''oita''
     (assign_alias ''kouchi'' ''kochi''
     (assign_alias ''hyougo'' ''hyogo''
     (assign_alias ''nigata'' ''niigata''
     (assign_alias ''ohsaka'' ''osaka''
     (assign_alias ''oosaka'' ''osaka''
     (map_of prefectures_literal))))))))"

text \<open>
  The table is an ordinary object, so reading \<open>prefectures[name]\<close> finds the own properties
  first and then the members every object inherits from \<open>Object.prototype\<close>. Each inherited
  member is a function or an object, hence truthy, and has no property \<open>lat\<close>, \<open>lon\<close> or
  \<open>kanjiName\<close>.
\<close>

definition Object_prototype_names :: "string list" where
  "Object_prototype_names =
     [''constructor'', ''__proto__'', ''hasOwnProperty'', ''isPrototypeOf'',
      ''propertyIsEnumerable'', ''toLocaleString'', ''toString'', ''valueOf'',
      ''__defineGetter__'', ''__defineSetter__'', ''__lookupGetter__'', ''__lookupSetter__'']"

datatype table_value = PrefectureObject Prefecture | InheritedMember string

definition prefectures_get :: "string \<Rightarrow> table_value option" where
  "prefectures_get name =
     (case prefectures name of
        Some p \<Rightarrow> Some (PrefectureObject p)
      | None \<Rightarrow> (if name \<in> set Object_prototype_names then Some (InheritedMember name) else None))"

text \<open>\<open>prefectures[prefectureName] || prefectures['tokyo']\<close>\<close>

definition lookup_prefecture :: "string \<Rightarrow> table_value option" where
  "lookup_prefecture prefectureName =
     (case prefectures_get prefectureName of
        Some v \<Rightarrow> Some v
      | None \<Rightarrow> prefectures_get ''tokyo'')"

fun get_lat :: "table_value \<Rightarrow> real option" where
  "get_lat (PrefectureObject p) = Some (lat p)"
| "get_lat (InheritedMember _) = None"

fun get_lon :: "table_value \<Rightarrow> real option" where
  "get_lon (PrefectureObject p) = Some (lon p)"
| "get_lon (InheritedMember _) = None"

fun get_kanjiName :: "table_value \<Rightarrow> string option" where
  "get_kanjiName (PrefectureObject p) = Some (kanjiName p)"
| "get_kanjiName (InheritedMember _) = None"

section \<open>Command parsing\<close>

text \<open>
  \<open>commandInputs\<close> is the lower-cased command text split at white space, or the empty list
  for an empty text.
\<close>

definition prefectureName_of :: "string list \<Rightarrow> string" where
  "prefectureName_of commandInputs =
     (if length commandInputs > 0 then commandInputs ! 0 else ''tokyo'')"

definition extractMode :: "string list \<Rightarrow> string option" where
  "extractMode inputs = (if length inputs \<ge> 2 then Some (inputs ! 1) else None)"


section \<open>The outside world of one invocation\<close>

text \<open>
  Everything the handler obtains from outside is a field of \<open>World\<close>: the clock, the outcome
  of every HTTP request, image load and chat API call, and the order in which concurrent
  operations settle. Every operation settles, either fulfilled or rejected with an error.
\<close>

datatype error = Error string

type_synonym Buffer = "nat list"

text \<open>An image object whose \<open>src\<close> is the given buffer.\<close>

datatype Image = Image Buffer

record WebAPICallResult =
  res_ok :: bool
  res_message :: "string option option"

text \<open>
  \<open>res_message\<close> is \<open>None\<close> when the response has no \<open>message\<close>, and \<open>Some ts\<close> with the
  (possibly undefined) \<open>ts\<close> of the message otherwise.
\<close>

text \<open>
  What is uploaded: the fetched bytes as they are, or the bytes the encoder has written so far,
  which are its header and the frames added up to then.
\<close>

datatype file_data = Fetched Buffer | EncoderOut "Image option list"

record files_upload_call =
  up_token :: "string option"
  up_title :: string
  up_file :: file_data
  up_filename :: string
  up_filetype :: string
  up_channels :: string

record World =
  now_ms :: int
  local_offset :: int
  http_get :: "string \<Rightarrow> error + Buffer"
  get_arrival :: "nat list"
  image_load :: "Buffer \<Rightarrow> error option"
  load_completion :: "nat list"
  late_before_settle :: nat
  chat_postMessage :: "bool \<Rightarrow> error + WebAPICallResult"
  files_upload :: "files_upload_call \<Rightarrow> error option"
  chat_delete :: "string option \<Rightarrow> error option"

text \<open>
  \<open>http_get url\<close> is the outcome of \<open>request.get\<close> for that URL, \<open>image_load buf\<close> is
  \<open>None\<close> when \<open>onload\<close> fires for the buffer and the error of \<open>onerror\<close> otherwise,
  \<open>chat_postMessage as_user\<close> is the outcome of posting with that \<open>as_user\<close> option,
  \<open>chat_delete ts\<close> the outcome of deleting the message with that \<open>ts\<close>. \<open>get_arrival\<close> and
  \<open>load_completion\<close> list positions in the order in which the requests and the image loads
  settle; \<open>late_before_settle\<close> counts the image loads that complete between a failed load and
  the run of the handlers it triggers.
\<close>

subsection \<open>What the invocation does, as a trace\<close>

record chat_postMessage_call =
  pm_token :: "string option"
  pm_channel :: string
  pm_text :: string
  pm_as_user :: bool

datatype logged = LoggedError error | LoggedResult WebAPICallResult

datatype event =
    Ack
  | RequestGet string
  | ChatPostMessage chat_postMessage_call
  | PrintCompleteJSON logged
  | LoadImage Buffer
  | FilesUpload files_upload_call
  | ConsoleLog
  | ChatDelete "string option" string "string option"
  | EncoderFinish
  | UnhandledRejection error
  | ListenerThrew error

text \<open>
  The trace, and the canvas and the frames of the encoder of the invocation. A blank canvas is
  \<open>None\<close>; \<open>drawImage\<close> at the origin with the size of the canvas replaces its content.
\<close>

record Pipeline =
  trace :: "event list"
  canvas :: "Image option"
  frames :: "Image option list"

definition emit :: "event list \<Rightarrow> Pipeline \<Rightarrow> Pipeline" where
  "emit es s = s\<lparr>trace := trace s @ es\<rparr>"

definition start :: Pipeline where
  "start = \<lparr>trace = [], canvas = None, frames = []\<rparr>"

subsection \<open>Promise.all\<close>

text \<open>
  The positions \<open>0..<n\<close> in the order in which they settle: as listed, positions not listed
  after them, and a position listed twice counted once.
\<close>

definition settle_order :: "nat \<Rightarrow> nat list \<Rightarrow> nat list" where
  "settle_order n ord =
     remdups (filter (\<lambda>i. i < n) ord) @ filter (\<lambda>i. i \<notin> set ord) [0..<n]"

fun find_rejection :: "nat list \<Rightarrow> (error + 'a) list \<Rightarrow> error option" where
  "find_rejection [] rs = None"
| "find_rejection (i # js) rs =
     (if i < length rs
      then (case rs ! i of Inl e \<Rightarrow> Some e | Inr _ \<Rightarrow> find_rejection js rs)
      else find_rejection js rs)"

fun fulfilled :: "(error + 'a) list \<Rightarrow> 'a list" where
  "fulfilled [] = []"
| "fulfilled (Inl e # rs) = fulfilled rs"
| "fulfilled (Inr v # rs) = v # fulfilled rs"

text \<open>
  Rejected with the error of the promise that rejects first; otherwise fulfilled with the
  values in the order of the promises.
\<close>

definition Promise_all :: "nat list \<Rightarrow> (error + 'a) list \<Rightarrow> error + 'a list" where
  "Promise_all ord rs =
     (case find_rejection (settle_order (length rs) ord) rs of
        Some e \<Rightarrow> Inl e
      | None \<Rightarrow> Inr (fulfilled rs))"


section \<open>The handler\<close>

record Command =
  commandInputs :: "string list"
  channel_id :: string
  botToken :: "string option"

subsection \<open>Japanese text of the messages (UTF-8)\<close>

definition text_genzai :: string where
  "text_genzai =
     [CHR 0x20, CHR 0xE7, CHR 0x8F, CHR 0xBE, CHR 0xE5, CHR 0x9C, CHR 0xA8, CHR 0xE3, CHR 0x80,
      CHR 0x81]"

definition text_shutokuchu :: string where
  "text_shutokuchu =
     [CHR 0xE4, CHR 0xBB, CHR 0x98, CHR 0xE8, CHR 0xBF, CHR 0x91, CHR 0xE3, CHR 0x81, CHR 0xAE,
      CHR 0xE9, CHR 0x9B, CHR 0xA8, CHR 0xE9, CHR 0x9B, CHR 0xB2, CHR 0xE3, CHR 0x83, CHR 0xAC,
      CHR 0xE3, CHR 0x83, CHR 0xBC, CHR 0xE3, CHR 0x83, CHR 0x80, CHR 0xE3, CHR 0x83, CHR 0xBC,
      CHR 0xE3, CHR 0x81, CHR 0xAE, CHR 0xE6, CHR 0x83, CHR 0x85, CHR 0xE5, CHR 0xA0, CHR 0xB1,
      CHR 0xE3, CHR 0x82, CHR 0x92, CHR 0xE5, CHR 0x8F, CHR 0x96, CHR 0xE5, CHR 0xBE, CHR 0x97,
      CHR 0xE4, CHR 0xB8, CHR 0xAD, CHR 0xE3, CHR 0x81, CHR 0xA7, CHR 0xE3, CHR 0x81, CHR 0x99,
      CHR 0x2E, CHR 0x2E, CHR 0x2E, CHR 0x20]"

definition text_fukin_no :: string where
  "text_fukin_no =
     [CHR 0xE4, CHR 0xBB, CHR 0x98, CHR 0xE8, CHR 0xBF, CHR 0x91, CHR 0xE3, CHR 0x81, CHR 0xAE]"

definition text_hyouji :: string where
  "text_hyouji =
     [CHR 0xE9, CHR 0x9B, CHR 0xA8, CHR 0xE9, CHR 0x9B, CHR 0xB2, CHR 0xE3, CHR 0x83, CHR 0xAC,
      CHR 0xE3, CHR 0x83, CHR 0xBC, CHR 0xE3, CHR 0x83, CHR 0x80, CHR 0xE3, CHR 0x83, CHR 0xBC,
      CHR 0xE3, CHR 0x82, CHR 0x92, CHR 0xE8, CHR 0xA1, CHR 0xA8, CHR 0xE7, CHR 0xA4, CHR 0xBA,
      CHR 0xE3, CHR 0x81, CHR 0x97, CHR 0xE3, CHR 0x81, CHR 0xA6, CHR 0xE3, CHR 0x81, CHR 0x84,
      CHR 0xE3, CHR 0x81, CHR 0xBE, CHR 0xE3, CHR 0x81, CHR 0x99]"

definition radarType_now :: string where
  "radarType_now =
     [CHR 0xE7, CHR 0x8F, CHR 0xBE, CHR 0xE5, CHR 0x9C, CHR 0xA8, CHR 0xE3, CHR 0x81, CHR 0xAE]"

definition radarType_today :: string where
  "radarType_today =
     [CHR 0xE7, CHR 0x9B, CHR 0xB4, CHR 0xE8, CHR 0xBF, CHR 0x91, CHR 0xE4, CHR 0xB8, CHR 0x80,
      CHR 0xE6, CHR 0x97, CHR 0xA5, CHR 0xE5, CHR 0x88, CHR 0x86, CHR 0xE3, CHR 0x81, CHR 0xAE]"

definition radarType_forecast :: string where
  "radarType_forecast =
     [CHR 0xE4, CHR 0xBA, CHR 0x88, CHR 0xE6, CHR 0xB8, CHR 0xAC]"

subsection \<open>The status message\<close>

record ChatPostMessageArgs =
  token :: "string option"
  channelId :: string
  prefectureKanjiName :: "string option"
  asUser :: bool

definition postMessage_call :: "ChatPostMessageArgs \<Rightarrow> chat_postMessage_call" where
  "postMessage_call args =
     (let loadingMessage = '':mag:'' @ text_genzai @ tmpl_str (prefectureKanjiName args)
            @ text_shutokuchu @ '':thunder_cloud_and_rain:''
      in \<lparr>pm_token = token args, pm_channel = channelId args, pm_text = loadingMessage,
          pm_as_user = asUser args\<rparr>)"

definition callChatPostMessage ::
  "World \<Rightarrow> ChatPostMessageArgs \<Rightarrow> Pipeline \<Rightarrow> (error + WebAPICallResult) \<times> Pipeline" where
  "callChatPostMessage w args s =
     (chat_postMessage w (asUser args), emit [ChatPostMessage (postMessage_call args)] s)"

text \<open>Reading \<open>res.message.ts\<close> of a response without \<open>message\<close> throws.\<close>

definition extractMessageTs ::
  "WebAPICallResult \<Rightarrow> Pipeline \<Rightarrow> (error + string option) \<times> Pipeline" where
  "extractMessageTs res s =
     (let s1 = emit [PrintCompleteJSON (LoggedResult res)] s
      in (if res_ok res
          then (case res_message res of None \<Rightarrow> Inl (Error ''TypeError'') | Some ts \<Rightarrow> Inr ts)
          else Inr None, s1))"

text \<open>\<open>callChatPostMessage(args).then(extractMessageTs)\<close>\<close>

definition post_then_extract ::
  "World \<Rightarrow> ChatPostMessageArgs \<Rightarrow> Pipeline \<Rightarrow> (error + string option) \<times> Pipeline" where
  "post_then_extract w args s =
     (case callChatPostMessage w args s of
        (Inl e, s1) \<Rightarrow> (Inl e, s1)
      | (Inr res, s1) \<Rightarrow> extractMessageTs res s1)"

text \<open>The awaited expression that yields \<open>loadingMessageTs\<close>, with its two \<open>catch\<close> handlers.\<close>

definition post_status ::
  "World \<Rightarrow> ChatPostMessageArgs \<Rightarrow> Pipeline \<Rightarrow> string option \<times> Pipeline" where
  "post_status w chatPostMessageArgs s =
     (case post_then_extract w chatPostMessageArgs s of
        (Inr ts, s1) \<Rightarrow> (ts, s1)
      | (Inl e, s1) \<Rightarrow>
          (let s2 = emit [PrintCompleteJSON (LoggedError e)] s1;
               args2 = chatPostMessageArgs\<lparr>asUser := False\<rparr>
           in (case post_then_extract w args2 s2 of
                 (Inr ts, s3) \<Rightarrow> (ts, s3)
               | (Inl e2, s3) \<Rightarrow> (None, emit [PrintCompleteJSON (LoggedError e2)] s3))))"

subsection \<open>Upload\<close>

record UploadImageArgs =
  u_token :: "string option"
  u_channelId :: string
  u_prefName :: string
  u_prefKanjiName :: "string option"
  u_radarType :: string
  u_file :: file_data
  u_filetype :: string

definition upload_call :: "UploadImageArgs \<Rightarrow> files_upload_call" where
  "upload_call args =
     \<lparr>up_token = u_token args,
      up_title = tmpl_str (u_prefKanjiName args) @ text_fukin_no @ u_radarType args @ text_hyouji,
      up_file = u_file args,
      up_filename = ''amesh_'' @ u_prefName args @ ''.'' @ u_filetype args,
      up_filetype = ''image/'' @ u_filetype args,
      up_channels = u_channelId args\<rparr>"

text \<open>The returned promise: rejected with the error of the upload, or fulfilled after
  \<open>console.log\<close> has printed the response.\<close>

definition uploadImage :: "World \<Rightarrow> UploadImageArgs \<Rightarrow> Pipeline \<Rightarrow> error option \<times> Pipeline" where
  "uploadImage w args s =
     (case files_upload w (upload_call args) of
        Some e \<Rightarrow> (Some e, emit [FilesUpload (upload_call args)] s)
      | None \<Rightarrow> (None, emit [FilesUpload (upload_call args), ConsoleLog] s))"

subsection \<open>Canvas and encoder\<close>

definition drawImage :: "Image \<Rightarrow> Pipeline \<Rightarrow> Pipeline" where
  "drawImage img s = s\<lparr>canvas := Some img\<rparr>"

definition addFrame :: "Pipeline \<Rightarrow> Pipeline" where
  "addFrame s = s\<lparr>frames := frames s @ [canvas s]\<rparr>"

text \<open>The callback that runs when the image of a buffer has loaded.\<close>

definition on_loaded :: "Buffer \<Rightarrow> Pipeline \<Rightarrow> Pipeline" where
  "on_loaded imageBuffer s = addFrame (drawImage (Image imageBuffer) s)"

text \<open>
  The loads complete in the given order of positions. Up to the first load that fails, each
  completed load runs its callback; the result is the error of the failed load, if any, the
  positions that had not completed by then, and the state.
\<close>

fun run_loads ::
  "World \<Rightarrow> Buffer list \<Rightarrow> nat list \<Rightarrow> Pipeline \<Rightarrow> error option \<times> nat list \<times> Pipeline" where
  "run_loads w images [] s = (None, [], s)"
| "run_loads w images (i # js) s =
     (case image_load w (images ! i) of
        None \<Rightarrow> run_loads w images js (on_loaded (images ! i) s)
      | Some e \<Rightarrow> (Some e, js, s))"

text \<open>
  Loads that complete after \<open>Promise.all\<close> has been rejected: the callback of a successful one
  still runs, a further failure has no effect.
\<close>

fun run_late :: "World \<Rightarrow> Buffer list \<Rightarrow> nat list \<Rightarrow> Pipeline \<Rightarrow> Pipeline" where
  "run_late w images [] s = s"
| "run_late w images (i # js) s =
     (case image_load w (images ! i) of
        None \<Rightarrow> run_late w images js (on_loaded (images ! i) s)
      | Some e \<Rightarrow> run_late w images js s)"


subsection \<open>Building the requests\<close>

text \<open>
  Both loops of the animation branch have the shape
  \<open>for (i = 0; i < n; i++) { push (request.get (url m)); m = step m }\<close>.
  A request is identified by its URL; the list is \<open>imageFetchRequests\<close>.
\<close>

function request_loop ::
  "nat \<Rightarrow> (Moment \<Rightarrow> Moment) \<Rightarrow> (Moment \<Rightarrow> string) \<Rightarrow> nat \<Rightarrow> Moment \<Rightarrow> string list
     \<Rightarrow> string list" where
  "request_loop n step url i m imageFetchRequests =
     (if i < n
      then request_loop n step url (i + 1) (step m) (imageFetchRequests @ [url m])
      else imageFetchRequests)"
  by pat_completeness auto
termination
  by (relation "measure (\<lambda>(n, step, url, i, m, reqs). n - i)") auto

declare request_loop.simps [simp del]

definition image_requests ::
  "Config \<Rightarrow> World \<Rightarrow> real option \<Rightarrow> real option \<Rightarrow> string option \<Rightarrow> string list" where
  "image_requests cfg w latitude longitude mode =
     (let m = tz_Asia_Tokyo (moment_now (now_ms w) (local_offset w));
          url = (\<lambda>m. buildImageUrl cfg
                   \<lparr>arg_lat = latitude, arg_lon = longitude, arg_width = 400, arg_height = 300,
                    arg_m = m\<rparr>)
      in if mode = Some ''today''
         then request_loop 25 (add_hours 1) url 0 (subtract_days 1 m) []
         else request_loop 7 (add_minutes 10) url 0 (subtract_minutes 10 m) [])"

subsection \<open>The single image of mode \<open>now\<close>\<close>

text \<open>
  The promise of the request has a \<open>then\<close> and no \<open>catch\<close>, and the callback drops the
  promise that \<open>uploadImage\<close> returns: a rejection of either has no handler.
\<close>

definition now_branch ::
  "Config \<Rightarrow> World \<Rightarrow> Command \<Rightarrow> string \<Rightarrow> table_value \<Rightarrow> Pipeline \<Rightarrow> Pipeline" where
  "now_branch cfg w command prefectureName prefecture s =
     (let m = tz_Asia_Tokyo (moment_now (now_ms w) (local_offset w));
          url = buildImageUrl cfg
                  \<lparr>arg_lat = get_lat prefecture, arg_lon = get_lon prefecture,
                   arg_width = 400, arg_height = 300, arg_m = m\<rparr>;
          s1 = emit [RequestGet url] s
      in (case http_get w url of
            Inl e \<Rightarrow> emit [UnhandledRejection e] s1
          | Inr image_buf \<Rightarrow>
              (case uploadImage w
                      \<lparr>u_token = botToken command, u_channelId = channel_id command,
                       u_prefName = prefectureName, u_prefKanjiName = get_kanjiName prefecture,
                       u_radarType = radarType_now, u_file = Fetched image_buf,
                       u_filetype = ''png''\<rparr> s1 of
                 (Some e, s2) \<Rightarrow> emit [UnhandledRejection e] s2
               | (None, s2) \<Rightarrow> s2)))"

subsection \<open>The animation\<close>

text \<open>A string is truthy when it is defined and not empty.\<close>

definition truthy :: "string option \<Rightarrow> bool" where
  "truthy v = (case v of None \<Rightarrow> False | Some s \<Rightarrow> s \<noteq> [])"

text \<open>
  The promise chain from \<open>Promise.all(imageFetchRequests)\<close> to \<open>finally\<close>. A rejection
  anywhere skips the remaining \<open>then\<close> callbacks and reaches \<open>catch(printCompleteJSON)\<close>;
  the failure of the deletion has a \<open>catch\<close> of its own.
\<close>

definition animation_chain ::
  "World \<Rightarrow> Command \<Rightarrow> string \<Rightarrow> table_value \<Rightarrow> string option \<Rightarrow> string list
     \<Rightarrow> string option \<Rightarrow> Pipeline \<Rightarrow> Pipeline" where
  "animation_chain w command prefectureName prefecture mode imageFetchRequests loadingMessageTs s =
     (case Promise_all (get_arrival w) (map (http_get w) imageFetchRequests) of
        Inl e \<Rightarrow> emit [PrintCompleteJSON (LoggedError e), EncoderFinish] s
      | Inr images \<Rightarrow>
          (let s1 = emit (map LoadImage images) s
           in (case run_loads w images (settle_order (length images) (load_completion w)) s1 of
                 (Some e, rest, s2) \<Rightarrow>
                   (let s3 = run_late w images (take (late_before_settle w) rest) s2;
                        s4 = emit [PrintCompleteJSON (LoggedError e), EncoderFinish] s3
                    in run_late w images (drop (late_before_settle w) rest) s4)
               | (None, rest, s2) \<Rightarrow>
                   (case uploadImage w
                           \<lparr>u_token = botToken command, u_channelId = channel_id command,
                            u_prefName = prefectureName,
                            u_prefKanjiName = get_kanjiName prefecture,
                            u_radarType = (if mode = Some ''today'' then radarType_today
                                           else radarType_forecast),
                            u_file = EncoderOut (frames s2), u_filetype = ''gif''\<rparr> s2 of
                      (Some e, s3) \<Rightarrow> emit [PrintCompleteJSON (LoggedError e), EncoderFinish] s3
                    | (None, s3) \<Rightarrow>
                        (if truthy loadingMessageTs
                         then (case chat_delete w loadingMessageTs of
                                 Some e \<Rightarrow>
                                   emit [ChatDelete (botToken command) (channel_id command)
                                           loadingMessageTs,
                                         PrintCompleteJSON (LoggedError e), EncoderFinish] s3
                               | None \<Rightarrow>
                                   emit [ChatDelete (botToken command) (channel_id command)
                                           loadingMessageTs,
                                         EncoderFinish] s3)
                         else emit [EncoderFinish] s3)))))"

definition animation_branch ::
  "Config \<Rightarrow> World \<Rightarrow> Command \<Rightarrow> string \<Rightarrow> table_value \<Rightarrow> string option \<Rightarrow> Pipeline
     \<Rightarrow> Pipeline" where
  "animation_branch cfg w command prefectureName prefecture mode s =
     (let imageFetchRequests =
            image_requests cfg w (get_lat prefecture) (get_lon prefecture) mode;
          s1 = emit (map RequestGet imageFetchRequests) s;
          chatPostMessageArgs =
            \<lparr>token = botToken command, channelId = channel_id command,
             prefectureKanjiName = get_kanjiName prefecture, asUser = True\<rparr>;
          (loadingMessageTs, s2) = post_status w chatPostMessageArgs s1
      in animation_chain w command prefectureName prefecture mode imageFetchRequests
           loadingMessageTs s2)"

subsection \<open>The slash command\<close>

text \<open>
  Reading \<open>lat\<close> of \<open>undefined\<close> would throw inside the listener; the table has the key
  \<open>tokyo\<close>, so the lookup always yields a value.
\<close>

definition handler :: "Config \<Rightarrow> World \<Rightarrow> Command \<Rightarrow> Pipeline" where
  "handler cfg w command =
     (let s = emit [Ack] start;
          prefectureName = prefectureName_of (commandInputs command)
      in (case lookup_prefecture prefectureName of
            None \<Rightarrow> emit [ListenerThrew (Error ''TypeError'')] s
          | Some prefecture \<Rightarrow>
              (let mode = extractMode (commandInputs command)
               in if mode = Some ''now''
                  then now_branch cfg w command prefectureName prefecture s
                  else animation_branch cfg w command prefectureName prefecture mode s)))"

subsection \<open>Reading a trace\<close>

fun requests_of :: "event list \<Rightarrow> string list" where
  "requests_of [] = []"
| "requests_of (RequestGet u # es) = u # requests_of es"
| "requests_of (_ # es) = requests_of es"

fun uploads_of :: "event list \<Rightarrow> files_upload_call list" where
  "uploads_of [] = []"
| "uploads_of (FilesUpload c # es) = c # uploads_of es"
| "uploads_of (_ # es) = uploads_of es"

fun posts_of :: "event list \<Rightarrow> bool list" where
  "posts_of [] = []"
| "posts_of (ChatPostMessage c # es) = pm_as_user c # posts_of es"
| "posts_of (_ # es) = posts_of es"

fun loads_of :: "event list \<Rightarrow> Buffer list" where
  "loads_of [] = []"
| "loads_of (LoadImage b # es) = b # loads_of es"
| "loads_of (_ # es) = loads_of es"

fun escaped_of :: "event list \<Rightarrow> error list" where
  "escaped_of [] = []"
| "escaped_of (UnhandledRejection e # es) = e # escaped_of es"
| "escaped_of (ListenerThrew e # es) = e # escaped_of es"
| "escaped_of (_ # es) = escaped_of es"

fun logged_errors_of :: "event list \<Rightarrow> error list" where
  "logged_errors_of [] = []"
| "logged_errors_of (PrintCompleteJSON (LoggedError e) # es) = e # logged_errors_of es"
| "logged_errors_of (_ # es) = logged_errors_of es"

fun finish_count :: "event list \<Rightarrow> nat" where
  "finish_count [] = 0"
| "finish_count (EncoderFinish # es) = Suc (finish_count es)"
| "finish_count (_ # es) = finish_count es"

section \<open>Vocabulary of the properties\<close>

text \<open>
  The URL that the handler builds for a prefecture value and an instant displayed in
  Asia/Tokyo, with the fixed image size of 400 by 300.
\<close>

definition tokyo_url :: "Config \<Rightarrow> table_value \<Rightarrow> int \<Rightarrow> string" where
  "tokyo_url cfg prefecture t =
     buildImageUrl cfg
       \<lparr>arg_lat = get_lat prefecture, arg_lon = get_lon prefecture,
        arg_width = 400, arg_height = 300, arg_m = \<lparr>ms = t, utcOffset = 540\<rparr>\<rparr>"


subsection \<open>A concrete invocation\<close>

definition example_config :: Config where
  "example_config =
     \<lparr>env_YAHOO_JAPAN_API_CLIENT_ID = Some ''id'', env_YAHOO_JAPAN_API_MAP_MODE = None,
      numToString = (\<lambda>x. if x = 400 then ''400'' else if x = 300 then ''300''
                         else if x = 35.68944 then ''35.68944''
                         else if x = 139.69167 then ''139.69167'' else ''0'')\<rparr>"

text \<open>
  2020-09-13 21:26:40 in Tokyo; every request is answered with the last four characters of
  its URL (hour and minute of the frame), every image loads, every chat call succeeds.
\<close>

definition example_world :: World where
  "example_world =
     \<lparr>now_ms = 1600000000000, local_offset = 0,
      http_get = (\<lambda>u. Inr (map of_char (drop (length u - 4) u))),
      get_arrival = [], image_load = (\<lambda>b. None), load_completion = [],
      late_before_settle = 0,
      chat_postMessage =
        (\<lambda>as_user. Inr \<lparr>res_ok = True, res_message = Some (Some ''1600000000.000100'')\<rparr>),
      files_upload = (\<lambda>c. None), chat_delete = (\<lambda>ts. None)\<rparr>"

definition example_command :: "string list \<Rightarrow> Command" where
  "example_command inputs =
     \<lparr>commandInputs = inputs, channel_id = ''C024BE91L'', botToken = Some ''xoxb-1''\<rparr>"

text \<open>The same world, except that the request for the frame of 21:36 fails.\<close>

definition one_request_fails :: World where
  "one_request_fails =
     example_world\<lparr>http_get :=
       (\<lambda>u. if drop (length u - 4) u = ''2136'' then Inl (Error ''ECONNRESET'')
            else Inr (map of_char (drop (length u - 4) u)))\<rparr>"

definition url_2136 :: string where
  "url_2136 = ''https://map.yahooapis.jp/map/V1/static?appid=id&z=10&lat=35.68944&lon=139.69167&width=400&height=300&mode=map&overlay=type:rainfall|datelabel:on|date:202009132136''"



section \<open>Auxiliary facts\<close>

text \<open>
  Some instants written in Asia/Tokyo: the epoch, a leap day, the first minute of a year, and
  the last minute of a day.
\<close>

lemma tokyo_stamp_examples:
  "tokyo_stamp 0 = ''197001010900''"
  "tokyo_stamp 951750000000 = ''200002290000''"
  "tokyo_stamp 1577804400000 = ''202001010000''"
  "tokyo_stamp 1600009199999 = ''202009132359''"
  by code_simp+

lemma request_loop_eq:
  "request_loop n step url i m reqs = reqs @ map (\<lambda>k. url ((step ^^ k) m)) [0..<n - i]"
proof (induction n step url i m reqs rule: request_loop.induct)
  case (1 n step url i m reqs)
  show ?case
  proof (cases "i < n")
    case True
    then have split: "[0..<n - i] = 0 # map Suc [0..<n - (i + 1)]"
      by (metis Suc_diff_Suc add.commute diff_diff_left map_Suc_upt plus_1_eq_Suc upt_conv_Cons zero_less_Suc)
    have "request_loop n step url i m reqs
            = request_loop n step url (i + 1) (step m) (reqs @ [url m])"
      using True by (simp add: request_loop.simps [of n step url i m reqs])
    also have "\<dots> = (reqs @ [url m]) @ map (\<lambda>k. url ((step ^^ k) (step m))) [0..<n - (i + 1)]"
      using "1.IH" True by simp
    also have "\<dots> = reqs @ map (\<lambda>k. url ((step ^^ k) m)) [0..<n - i]"
      unfolding split by (simp add: funpow_swap1 comp_def)
    finally show ?thesis .
  next
    case False
    then show ?thesis by (simp add: request_loop.simps [of n step url i m reqs])
  qed
qed

lemma add_hours_funpow: "(add_hours 1 ^^ k) m = m\<lparr>ms := ms m + int k * 3600000\<rparr>"
  by (induction k) (simp_all add: add_hours_def algebra_simps)

lemma add_minutes_funpow: "(add_minutes 10 ^^ k) m = m\<lparr>ms := ms m + int k * 600000\<rparr>"
  by (induction k) (simp_all add: add_minutes_def algebra_simps)

lemma requests_of_append: "requests_of (xs @ ys) = requests_of xs @ requests_of ys"
  by (induction xs rule: requests_of.induct) simp_all
lemma uploads_of_append: "uploads_of (xs @ ys) = uploads_of xs @ uploads_of ys"
  by (induction xs rule: uploads_of.induct) simp_all
lemma posts_of_append: "posts_of (xs @ ys) = posts_of xs @ posts_of ys"
  by (induction xs rule: posts_of.induct) simp_all
lemma loads_of_append: "loads_of (xs @ ys) = loads_of xs @ loads_of ys"
  by (induction xs rule: loads_of.induct) simp_all
lemma escaped_of_append: "escaped_of (xs @ ys) = escaped_of xs @ escaped_of ys"
  by (induction xs rule: escaped_of.induct) simp_all
lemma logged_errors_of_append:
  "logged_errors_of (xs @ ys) = logged_errors_of xs @ logged_errors_of ys"
  by (induction xs rule: logged_errors_of.induct) simp_all
lemma finish_count_append: "finish_count (xs @ ys) = finish_count xs + finish_count ys"
  by (induction xs rule: finish_count.induct) simp_all

lemmas reader_append = requests_of_append uploads_of_append posts_of_append loads_of_append
  escaped_of_append logged_errors_of_append finish_count_append

lemma requests_of_RequestGet: "requests_of (map RequestGet us) = us"
  by (induction us) simp_all
lemma requests_of_LoadImage: "requests_of (map LoadImage bs) = []"
  by (induction bs) simp_all
lemma uploads_of_RequestGet: "uploads_of (map RequestGet us) = []"
  by (induction us) simp_all
lemma uploads_of_LoadImage: "uploads_of (map LoadImage bs) = []"
  by (induction bs) simp_all
lemma posts_of_RequestGet: "posts_of (map RequestGet us) = []"
  by (induction us) simp_all
lemma posts_of_LoadImage: "posts_of (map LoadImage bs) = []"
  by (induction bs) simp_all
lemma loads_of_RequestGet: "loads_of (map RequestGet us) = []"
  by (induction us) simp_all
lemma loads_of_LoadImage: "loads_of (map LoadImage bs) = bs"
  by (induction bs) simp_all
lemma escaped_of_RequestGet: "escaped_of (map RequestGet us) = []"
  by (induction us) simp_all
lemma escaped_of_LoadImage: "escaped_of (map LoadImage bs) = []"
  by (induction bs) simp_all
lemma finish_count_RequestGet: "finish_count (map RequestGet us) = 0"
  by (induction us) simp_all
lemma finish_count_LoadImage: "finish_count (map LoadImage bs) = 0"
  by (induction bs) simp_all

lemmas reader_map = requests_of_RequestGet requests_of_LoadImage uploads_of_RequestGet
  uploads_of_LoadImage posts_of_RequestGet posts_of_LoadImage loads_of_RequestGet
  loads_of_LoadImage escaped_of_RequestGet escaped_of_LoadImage finish_count_RequestGet
  finish_count_LoadImage

lemma emit_simps:
  "trace (emit es s) = trace s @ es" "canvas (emit es s) = canvas s"
  "frames (emit es s) = frames s"
  by (simp_all add: emit_def)

lemma on_loaded_simps:
  "trace (on_loaded b s) = trace s" "canvas (on_loaded b s) = Some (Image b)"
  "frames (on_loaded b s) = frames s @ [Some (Image b)]"
  by (simp_all add: on_loaded_def addFrame_def drawImage_def)

lemma run_loads_trace: "run_loads w images ord s = (r, rest, s') \<Longrightarrow> trace s' = trace s"
  by (induction ord arbitrary: s) (auto simp: on_loaded_simps split: option.splits)

lemma run_late_trace: "trace (run_late w images ord s) = trace s"
  by (induction ord arbitrary: s) (auto simp: on_loaded_simps split: option.splits)


lemma set_settle_order: "set (settle_order n ord) = {0..<n}"
  by (auto simp: settle_order_def)

lemma distinct_settle_order: "distinct (settle_order n ord)"
  by (auto simp: settle_order_def)

lemma settle_order_upt: "settle_order n [0..<n] = [0..<n]"
proof -
  have "filter (\<lambda>i. i < n) [0..<n] = [0..<n]" by (simp add: filter_id_conv)
  moreover have "filter (\<lambda>i. i \<notin> set [0..<n]) [0..<n] = []" by (simp add: filter_empty_conv)
  ultimately show ?thesis by (simp add: settle_order_def)
qed


lemma find_rejection_Some:
  "i \<in> set js \<Longrightarrow> i < length rs \<Longrightarrow> rs ! i = Inl e \<Longrightarrow> \<exists>e'. find_rejection js rs = Some e'"
  by (induction js) (auto split: sum.splits)


lemma Promise_all_rejected:
  assumes "Inl e \<in> set rs"
  shows "\<exists>e'. Promise_all ord rs = Inl e'"
proof -
  from assms obtain i where i: "i < length rs" "rs ! i = Inl e"
    by (auto simp: in_set_conv_nth)
  then have "i \<in> set (settle_order (length rs) ord)" by (simp add: set_settle_order)
  from find_rejection_Some [OF this i] show ?thesis
    by (auto simp: Promise_all_def)
qed


lemma post_status_events:
  "post_status w a s = (ts, s') \<Longrightarrow>
   \<exists>es. s' = emit es s \<and> requests_of es = [] \<and> uploads_of es = [] \<and> loads_of es = []
        \<and> escaped_of es = [] \<and> finish_count es = 0"
  unfolding post_status_def post_then_extract_def callChatPostMessage_def extractMessageTs_def
  by (auto simp: emit_def Let_def postMessage_call_def split: prod.splits sum.splits if_splits option.splits
      intro!: exI)

lemma prefectures_tokyo:
  "prefectures ''tokyo'' =
     Some \<lparr>kanjiName = [CHR 0xE6, CHR 0x9D, CHR 0xB1, CHR 0xE4, CHR 0xBA, CHR 0xAC, CHR 0xE9, CHR 0x83, CHR 0xBD],
           lat = 35.68944, lon = 139.69167\<rparr>"
  by code_simp

lemma lookup_prefecture_Some: "\<exists>v. lookup_prefecture name = Some v"
  by (simp add: lookup_prefecture_def prefectures_get_def prefectures_tokyo split: option.splits)

lemma request_loop_from_zero:
  "request_loop n step url 0 m [] = map (\<lambda>k. url ((step ^^ k) m)) [0..<n]"
  by (simp add: request_loop_eq)

lemma image_requests_today:
  "image_requests cfg w (get_lat p) (get_lon p) (Some ''today'') =
     map (\<lambda>i. tokyo_url cfg p (now_ms w - 24 * 3600000 + int i * 3600000)) [0..<25]"
proof -
  have "image_requests cfg w (get_lat p) (get_lon p) (Some ''today'') =
     map (\<lambda>k. buildImageUrl cfg
             \<lparr>arg_lat = get_lat p, arg_lon = get_lon p, arg_width = 400, arg_height = 300,
              arg_m = (add_hours 1 ^^ k)
                        (subtract_days 1 (tz_Asia_Tokyo (moment_now (now_ms w) (local_offset w))))\<rparr>)
       [0..<25]"
    unfolding image_requests_def Let_def request_loop_from_zero by simp
  also have "\<dots> = map (\<lambda>i. tokyo_url cfg p (now_ms w - 24 * 3600000 + int i * 3600000)) [0..<25]"
    by (intro map_cong refl)
      (simp add: add_hours_funpow tokyo_url_def tz_Asia_Tokyo_def moment_now_def
        subtract_days_def)
  finally show ?thesis .
qed

lemma image_requests_forecast:
  assumes "mode \<noteq> Some ''today''"
  shows "image_requests cfg w (get_lat p) (get_lon p) mode =
     map (\<lambda>i. tokyo_url cfg p (now_ms w - 600000 + int i * 600000)) [0..<7]"
proof -
  have "image_requests cfg w (get_lat p) (get_lon p) mode =
     map (\<lambda>k. buildImageUrl cfg
             \<lparr>arg_lat = get_lat p, arg_lon = get_lon p, arg_width = 400, arg_height = 300,
              arg_m = (add_minutes 10 ^^ k)
                        (subtract_minutes 10
                          (tz_Asia_Tokyo (moment_now (now_ms w) (local_offset w))))\<rparr>)
       [0..<7]"
    unfolding image_requests_def Let_def request_loop_from_zero using assms by simp
  also have "\<dots> = map (\<lambda>i. tokyo_url cfg p (now_ms w - 600000 + int i * 600000)) [0..<7]"
    by (intro map_cong refl)
      (simp add: add_minutes_funpow tokyo_url_def tz_Asia_Tokyo_def moment_now_def
        subtract_minutes_def)
  finally show ?thesis .
qed

lemma tokyo_url_stamp: "\<exists>pre. tokyo_url cfg p t = pre @ tokyo_stamp t"
proof -
  have "format_YYYYMMDDHHmm \<lparr>ms = t, utcOffset = 540\<rparr> = tokyo_stamp t"
    by (simp add: format_YYYYMMDDHHmm_def tokyo_stamp_def)
  then show ?thesis
    unfolding tokyo_url_def buildImageUrl_def
    by (metis ImageUrlArgs.select_convs(5) append.assoc)
qed

lemma animation_chain_events:
  "\<exists>es. trace (animation_chain w c n p mode urls ts s) = trace s @ es \<and> requests_of es = []
        \<and> posts_of es = [] \<and> escaped_of es = [] \<and> finish_count es = 1"
  unfolding animation_chain_def uploadImage_def
  by (auto simp: emit_simps run_late_trace Let_def reader_append reader_map
      split: prod.splits sum.splits option.splits dest!: run_loads_trace)

lemma handler_animation:
  "extractMode (commandInputs c) \<noteq> Some ''now'' \<Longrightarrow>
   lookup_prefecture (prefectureName_of (commandInputs c)) = Some p \<Longrightarrow>
   handler cfg w c =
     animation_branch cfg w c (prefectureName_of (commandInputs c)) p
       (extractMode (commandInputs c)) (emit [Ack] start)"
  by (simp add: handler_def Let_def)

lemma handler_now:
  "extractMode (commandInputs c) = Some ''now'' \<Longrightarrow>
   lookup_prefecture (prefectureName_of (commandInputs c)) = Some p \<Longrightarrow>
   handler cfg w c =
     now_branch cfg w c (prefectureName_of (commandInputs c)) p (emit [Ack] start)"
  by (simp add: handler_def Let_def)

lemma animation_branch_requests:
  "requests_of (trace (animation_branch cfg w c n p mode s)) =
     requests_of (trace s) @ image_requests cfg w (get_lat p) (get_lon p) mode"
proof -
  obtain ts s2 where ps: "post_status w \<lparr>token = botToken c, channelId = channel_id c,
             prefectureKanjiName = get_kanjiName p, asUser = True\<rparr>
             (emit (map RequestGet (image_requests cfg w (get_lat p) (get_lon p) mode)) s) = (ts, s2)"
    by (cases "post_status w \<lparr>token = botToken c, channelId = channel_id c,
             prefectureKanjiName = get_kanjiName p, asUser = True\<rparr>
             (emit (map RequestGet (image_requests cfg w (get_lat p) (get_lon p) mode)) s)")
  from post_status_events [OF ps] obtain es where es: "s2 = emit es (emit (map RequestGet (image_requests cfg w (get_lat p) (get_lon p) mode)) s)" "requests_of es = []"
    by blast
  obtain es' where es': "trace (animation_chain w c n p mode (image_requests cfg w (get_lat p) (get_lon p) mode) ts s2) = trace s2 @ es'" "requests_of es' = []"
    using animation_chain_events by blast
  have "requests_of (trace (animation_branch cfg w c n p mode s)) = requests_of (trace s2)"
    by (simp add: animation_branch_def Let_def ps es' reader_append)
  also have "\<dots> = requests_of (trace s) @ image_requests cfg w (get_lat p) (get_lon p) mode"
    by (simp add: es emit_simps reader_append reader_map)
  finally show ?thesis .
qed


lemma post_status_state:
  assumes "post_status w a s = (ts, s')"
  shows "canvas s' = canvas s" and "frames s' = frames s"
  using post_status_events [OF assms] by (auto simp: emit_simps)

lemma animation_branch_unfold:
  assumes "post_status w \<lparr>token = botToken c, channelId = channel_id c,
             prefectureKanjiName = get_kanjiName p, asUser = True\<rparr>
             (emit (map RequestGet (image_requests cfg w (get_lat p) (get_lon p) mode)) s)
           = (ts, s2)"
  shows "animation_branch cfg w c n p mode s =
           animation_chain w c n p mode (image_requests cfg w (get_lat p) (get_lon p) mode) ts s2"
  by (simp add: animation_branch_def Let_def assms)


lemma handler_requests:
  assumes "extractMode (commandInputs c) \<noteq> Some ''now''"
    and "lookup_prefecture (prefectureName_of (commandInputs c)) = Some p"
  shows "requests_of (trace (handler cfg w c)) =
           image_requests cfg w (get_lat p) (get_lon p) (extractMode (commandInputs c))"
  by (simp add: handler_animation [OF assms] animation_branch_requests emit_simps start_def)

section \<open>Properties of the handler\<close>

text \<open>
  C4. In mode \<open>today\<close> the handler issues exactly 25 requests; the URL of request \<open>i\<close> is built
  for the instant 24 hours before the invocation plus \<open>i\<close> hours, so the first is 24 hours
  before the invocation and the last is at the invocation.
\<close>

theorem today_mode_requests:
  assumes "extractMode (commandInputs command) = Some ''today''"
  shows "\<exists>prefecture.
           lookup_prefecture (prefectureName_of (commandInputs command)) = Some prefecture \<and>
           requests_of (trace (handler cfg w command)) =
             map (\<lambda>i. tokyo_url cfg prefecture (now_ms w - 24 * 3600000 + int i * 3600000))
               [0..<25] \<and>
           length (requests_of (trace (handler cfg w command))) = 25 \<and>
           hd (requests_of (trace (handler cfg w command))) =
             tokyo_url cfg prefecture (now_ms w - 24 * 3600000) \<and>
           last (requests_of (trace (handler cfg w command))) =
             tokyo_url cfg prefecture (now_ms w)"
proof -
  obtain p where p: "lookup_prefecture (prefectureName_of (commandInputs command)) = Some p"
    using lookup_prefecture_Some by blast
  have not_now: "extractMode (commandInputs command) \<noteq> Some ''now''"
    using assms by simp
  have reqs: "requests_of (trace (handler cfg w command)) =
      map (\<lambda>i. tokyo_url cfg p (now_ms w - 24 * 3600000 + int i * 3600000)) [0..<25]"
    unfolding handler_requests [OF not_now p] assms by (rule image_requests_today)
  have len: "length (requests_of (trace (handler cfg w command))) = 25"
    unfolding reqs by simp
  have first: "hd (requests_of (trace (handler cfg w command))) =
      tokyo_url cfg p (now_ms w - 24 * 3600000)"
    unfolding reqs by (simp add: hd_map del: upt.simps upt_Suc)
  have "last (map (\<lambda>i. tokyo_url cfg p (now_ms w - 24 * 3600000 + int i * 3600000)) [0..<25]) =
      tokyo_url cfg p (now_ms w - 24 * 3600000 + int (last [0..<25]) * 3600000)"
    by (rule last_map) simp
  also have "last [0..<25] = (24::nat)"
    by simp
  finally have final: "last (requests_of (trace (handler cfg w command))) = tokyo_url cfg p (now_ms w)"
    unfolding reqs by simp
  from p reqs len first final show ?thesis by blast
qed

theorem today_mode_requests_witness:
  "extractMode (commandInputs (example_command [''osaka'', ''today''])) = Some ''today'' \<and>
   (\<exists>prefecture.
      lookup_prefecture (prefectureName_of (commandInputs (example_command [''osaka'', ''today''])))
        = Some prefecture \<and>
      requests_of (trace (handler example_config example_world
                            (example_command [''osaka'', ''today'']))) =
        map (\<lambda>i. tokyo_url example_config prefecture
                   (now_ms example_world - 24 * 3600000 + int i * 3600000)) [0..<25] \<and>
      length (requests_of (trace (handler example_config example_world
                                    (example_command [''osaka'', ''today''])))) = 25 \<and>
      hd (requests_of (trace (handler example_config example_world
                                (example_command [''osaka'', ''today''])))) =
        tokyo_url example_config prefecture (now_ms example_world - 24 * 3600000) \<and>
      last (requests_of (trace (handler example_config example_world
                                  (example_command [''osaka'', ''today''])))) =
        tokyo_url example_config prefecture (now_ms example_world))"
proof -
  have h: "extractMode (commandInputs (example_command [''osaka'', ''today''])) = Some ''today''"
    by (simp add: example_command_def extractMode_def)
  show ?thesis
    by (rule conjI [OF h today_mode_requests [OF h]])
qed

text \<open>
  C5, as the code has it. With no mode token the handler issues exactly 7 requests; the URL of
  request \<open>i\<close> is built for the instant 10 minutes before the invocation plus \<open>i\<close> times 10
  minutes. The first is 10 minutes before the invocation and the last is 50 minutes after it:
  the seven instants span one hour that starts 10 minutes before the invocation.
\<close>

theorem forecast_mode_requests:
  assumes "extractMode (commandInputs command) = None"
  shows "\<exists>prefecture.
           lookup_prefecture (prefectureName_of (commandInputs command)) = Some prefecture \<and>
           requests_of (trace (handler cfg w command)) =
             map (\<lambda>i. tokyo_url cfg prefecture (now_ms w - 10 * 60000 + int i * (10 * 60000)))
               [0..<7] \<and>
           length (requests_of (trace (handler cfg w command))) = 7 \<and>
           hd (requests_of (trace (handler cfg w command))) =
             tokyo_url cfg prefecture (now_ms w - 10 * 60000) \<and>
           last (requests_of (trace (handler cfg w command))) =
             tokyo_url cfg prefecture (now_ms w + 50 * 60000)"
proof -
  obtain p where p: "lookup_prefecture (prefectureName_of (commandInputs command)) = Some p"
    using lookup_prefecture_Some by blast
  have not_now: "extractMode (commandInputs command) \<noteq> Some ''now''"
    using assms by simp
  have not_today: "extractMode (commandInputs command) \<noteq> Some ''today''"
    using assms by simp
  have reqs: "requests_of (trace (handler cfg w command)) =
      map (\<lambda>i. tokyo_url cfg p (now_ms w - 10 * 60000 + int i * (10 * 60000))) [0..<7]"
    unfolding handler_requests [OF not_now p] image_requests_forecast [OF not_today] by simp
  have len: "length (requests_of (trace (handler cfg w command))) = 7"
    unfolding reqs by simp
  have first: "hd (requests_of (trace (handler cfg w command))) =
      tokyo_url cfg p (now_ms w - 10 * 60000)"
    unfolding reqs by (simp add: hd_map del: upt.simps upt_Suc)
  have "last (map (\<lambda>i. tokyo_url cfg p (now_ms w - 10 * 60000 + int i * (10 * 60000))) [0..<7]) =
      tokyo_url cfg p (now_ms w - 10 * 60000 + int (last [0..<7]) * (10 * 60000))"
    by (rule last_map) simp
  also have "last [0..<7] = (6::nat)"
    by simp
  finally have final: "last (requests_of (trace (handler cfg w command))) =
      tokyo_url cfg p (now_ms w + 50 * 60000)"
    unfolding reqs by (simp add: add.commute)
  from p reqs len first final show ?thesis by blast
qed

theorem forecast_mode_requests_witness:
  "extractMode (commandInputs (example_command [''tokyo''])) = None \<and>
   (\<exists>prefecture.
      lookup_prefecture (prefectureName_of (commandInputs (example_command [''tokyo''])))
        = Some prefecture \<and>
      requests_of (trace (handler example_config example_world (example_command [''tokyo'']))) =
        map (\<lambda>i. tokyo_url example_config prefecture
                   (now_ms example_world - 10 * 60000 + int i * (10 * 60000))) [0..<7] \<and>
      length (requests_of (trace (handler example_config example_world
                                    (example_command [''tokyo''])))) = 7 \<and>
      hd (requests_of (trace (handler example_config example_world
                                (example_command [''tokyo''])))) =
        tokyo_url example_config prefecture (now_ms example_world - 10 * 60000) \<and>
      last (requests_of (trace (handler example_config example_world
                                  (example_command [''tokyo''])))) =
        tokyo_url example_config prefecture (now_ms example_world + 50 * 60000))"
proof -
  have h: "extractMode (commandInputs (example_command [''tokyo''])) = None"
    by (simp add: example_command_def extractMode_def)
  show ?thesis
    by (rule conjI [OF h forecast_mode_requests [OF h]])
qed

text \<open>
  The claim C5 as stated has the seven frames look back over the hour before the invocation.
  For an invocation at 21:26 Tokyo time on 2020-09-13 the last request asks for the frame of
  22:16, which is 50 minutes after the invocation.
\<close>

theorem forecast_last_frame_is_ahead:
  "tokyo_stamp (now_ms example_world) = ''202009132126'' \<and>
   last (requests_of (trace (handler example_config example_world (example_command [''tokyo''])))) =
     ''https://map.yahooapis.jp/map/V1/static?appid=id&z=10&lat=35.68944&lon=139.69167&width=400&height=300&mode=map&overlay=type:rainfall|datelabel:on|date:202009132216''"
  by code_simp











lemma unknown_name_falls_back:
  assumes "prefectures name = None" and "name \<notin> set Object_prototype_names"
  shows "lookup_prefecture name = lookup_prefecture ''tokyo''"
  using assms by (simp add: lookup_prefecture_def prefectures_get_def prefectures_tokyo)

text \<open>
  C7. The token \<open>constructor\<close> is not a key of the prefecture table, and the invocation does
  not resolve to the record of \<open>tokyo\<close>: the lookup yields the member of that name which the
  table inherits, the fallback is not taken, and latitude, longitude and display name are
  undefined, as the first request and the title of the upload show.
\<close>

theorem inherited_name_is_not_tokyo:
  "prefectures ''constructor'' = None \<and>
   lookup_prefecture ''constructor'' = Some (InheritedMember ''constructor'') \<and>
   lookup_prefecture ''tokyo'' =
     Some (PrefectureObject
       \<lparr>kanjiName = [CHR 0xE6, CHR 0x9D, CHR 0xB1, CHR 0xE4, CHR 0xBA, CHR 0xAC, CHR 0xE9,
                      CHR 0x83, CHR 0xBD],
        lat = 35.68944, lon = 139.69167\<rparr>) \<and>
   hd (requests_of (trace (handler example_config example_world
                             (example_command [''constructor''])))) =
     ''https://map.yahooapis.jp/map/V1/static?appid=id&z=10&lat=undefined&lon=undefined&width=400&height=300&mode=map&overlay=type:rainfall|datelabel:on|date:202009132116''"
  by code_simp

text \<open>
  C2. In mode \<open>now\<close> a request that fails is neither caught nor logged: the rejection leaves
  the handler unhandled. The same holds when the request succeeds and the upload fails.
\<close>

theorem now_mode_failure_escapes:
  "trace (handler example_config
            (example_world\<lparr>http_get := (\<lambda>u. Inl (Error ''ETIMEDOUT''))\<rparr>)
            (example_command [''tokyo'', ''now''])) =
     [Ack,
      RequestGet ''https://map.yahooapis.jp/map/V1/static?appid=id&z=10&lat=35.68944&lon=139.69167&width=400&height=300&mode=map&overlay=type:rainfall|datelabel:on|date:202009132126'',
      UnhandledRejection (Error ''ETIMEDOUT'')] \<and>
   escaped_of (trace (handler example_config
            (example_world\<lparr>files_upload := (\<lambda>c. Some (Error ''not_authed''))\<rparr>)
            (example_command [''tokyo'', ''now'']))) = [Error ''not_authed''] \<and>
   logged_errors_of (trace (handler example_config
            (example_world\<lparr>files_upload := (\<lambda>c. Some (Error ''not_authed''))\<rparr>)
            (example_command [''tokyo'', ''now'']))) = []"
  by code_simp

lemma animation_chain_rejected:
  assumes "Promise_all (get_arrival w) (map (http_get w) urls) = Inl e"
  shows "animation_chain w c n p mode urls ts s =
           emit [PrintCompleteJSON (LoggedError e), EncoderFinish] s"
  by (simp add: animation_chain_def assms)

lemma length_image_requests:
  "length (image_requests cfg w (get_lat p) (get_lon p) mode) =
     (if mode = Some ''today'' then 25 else 7)"
proof (cases "mode = Some ''today''")
  case True
  then show ?thesis by (simp add: image_requests_today)
next
  case False
  then show ?thesis by (simp add: image_requests_forecast)
qed

text \<open>
  C3. In the animation branch, when one of the requests fails, no image load is started, the
  canvas stays blank, the encoder receives no frame, and no upload is made; every URL has been
  requested once only (25 requests in mode \<open>today\<close>, 7 otherwise).
\<close>

theorem failed_request_stops_animation:
  assumes "extractMode (commandInputs command) \<noteq> Some ''now''"
    and "u \<in> set (requests_of (trace (handler cfg w command)))"
    and "http_get w u = Inl e"
  shows "loads_of (trace (handler cfg w command)) = [] \<and>
         canvas (handler cfg w command) = None \<and>
         frames (handler cfg w command) = [] \<and>
         uploads_of (trace (handler cfg w command)) = [] \<and>
         length (requests_of (trace (handler cfg w command))) =
           (if extractMode (commandInputs command) = Some ''today'' then 25 else 7)"
proof -
  let ?mode = "extractMode (commandInputs command)"
  let ?name = "prefectureName_of (commandInputs command)"
  obtain p where p: "lookup_prefecture ?name = Some p"
    using lookup_prefecture_Some by blast
  let ?urls = "image_requests cfg w (get_lat p) (get_lon p) ?mode"
  let ?s1 = "emit (map RequestGet ?urls) (emit [Ack] start)"
  have reqs: "requests_of (trace (handler cfg w command)) = ?urls"
    by (rule handler_requests [OF assms(1) p])
  have "Inl e \<in> set (map (http_get w) ?urls)"
    using assms(2,3) unfolding reqs by force
  then obtain e' where rej: "Promise_all (get_arrival w) (map (http_get w) ?urls) = Inl e'"
    using Promise_all_rejected by blast
  obtain ts s2 where ps: "post_status w \<lparr>token = botToken command,
      channelId = channel_id command, prefectureKanjiName = get_kanjiName p, asUser = True\<rparr> ?s1
      = (ts, s2)"
    by (meson surj_pair)
  from post_status_events [OF ps] obtain es
    where es: "s2 = emit es ?s1" "uploads_of es = []" "loads_of es = []"
    by blast
  have h: "handler cfg w command = emit [PrintCompleteJSON (LoggedError e'), EncoderFinish] s2"
    unfolding handler_animation [OF assms(1) p] animation_branch_unfold [OF ps]
    by (rule animation_chain_rejected [OF rej])
  have "loads_of (trace (handler cfg w command)) = []"
    by (simp add: h es emit_simps reader_append reader_map start_def)
  moreover have "canvas (handler cfg w command) = None"
    by (simp add: h es(1) emit_simps start_def)
  moreover have "frames (handler cfg w command) = []"
    by (simp add: h es(1) emit_simps start_def)
  moreover have "uploads_of (trace (handler cfg w command)) = []"
    by (simp add: h es emit_simps reader_append reader_map start_def)
  moreover have "length (requests_of (trace (handler cfg w command))) =
      (if ?mode = Some ''today'' then 25 else 7)"
    unfolding reqs by (rule length_image_requests)
  ultimately show ?thesis by blast
qed


lemma url_2136_requested:
  "url_2136 \<in> set (requests_of (trace (handler example_config one_request_fails
                                          (example_command [''tokyo'']))))"
  by code_simp

theorem failed_request_stops_animation_witness:
  "extractMode (commandInputs (example_command [''tokyo''])) \<noteq> Some ''now'' \<and>
   url_2136 \<in> set (requests_of (trace (handler example_config one_request_fails
                                           (example_command [''tokyo''])))) \<and>
   http_get one_request_fails url_2136 = Inl (Error ''ECONNRESET'') \<and>
   loads_of (trace (handler example_config one_request_fails (example_command [''tokyo'']))) = [] \<and>
   canvas (handler example_config one_request_fails (example_command [''tokyo''])) = None \<and>
   frames (handler example_config one_request_fails (example_command [''tokyo''])) = [] \<and>
   uploads_of (trace (handler example_config one_request_fails (example_command [''tokyo''])))
     = [] \<and>
   length (requests_of (trace (handler example_config one_request_fails
                                 (example_command [''tokyo''])))) = 7"
proof -
  have h1: "extractMode (commandInputs (example_command [''tokyo''])) \<noteq> Some ''now''"
    by (simp add: example_command_def extractMode_def)
  have h3: "http_get one_request_fails url_2136 = Inl (Error ''ECONNRESET'')"
    by (simp add: one_request_fails_def url_2136_def)
  have "extractMode (commandInputs (example_command [''tokyo''])) \<noteq> Some ''today''"
    by (simp add: example_command_def extractMode_def)
  with failed_request_stops_animation [OF h1 url_2136_requested h3] h1 url_2136_requested h3
  show ?thesis by simp
qed
























end
